theory Spec2Isabelle
  imports Complex_Main
begin

section \<open>Exceptions and the retry wrapper\<close>

text \<open>
  The exception classes the grading code can meet. The first six are classes of the
  OpenAI client library (all of them subclasses of its base class \<open>OpenAIError\<close>);
  \<open>InvalidRequestError\<close> is the malformed-request error. The others are Python
  built-ins raised by the code paths modelled below. \<open>Unmodelled\<close> is not a Python
  exception: it marks a use of \<open>str.format\<close> outside the fragment modelled in
  \<open>py_format\<close>, which no template of the program reaches.
\<close>

datatype exc =
    RateLimitError
  | ServiceUnavailableError
  | APIConnectionError
  | Timeout
  | InvalidRequestError
  | AuthenticationError
  | KeyError string
  | ValueError
  | IndexError
  | JSONDecodeError
  | FileNotFoundError
  | OSError
  | ZeroDivisionError
  | AttributeError
  | Unmodelled

definition is_OpenAIError :: "exc \<Rightarrow> bool" where
  "is_OpenAIError e =
     (e = RateLimitError \<or> e = ServiceUnavailableError \<or> e = APIConnectionError \<or>
      e = Timeout \<or> e = InvalidRequestError \<or> e = AuthenticationError)"

text \<open>The transient failures: rate limiting, service unavailable, connection errors, timeouts.\<close>

definition transient :: "exc \<Rightarrow> bool" where
  "transient e =
     (e = RateLimitError \<or> e = ServiceUnavailableError \<or> e = APIConnectionError \<or> e = Timeout)"

definition MAX_RETRIES :: nat where
  "MAX_RETRIES = 3"

definition INITIAL_BACKOFF :: real where
  "INITIAL_BACKOFF = 2.0"

text \<open>
  The observable effects of the wrapper: how many times the oracle has been invoked, and
  the durations passed to \<open>time.sleep\<close>, oldest first. The oracle is a function from
  the number of earlier invocations to the outcome of the next one.
\<close>

record io =
  calls :: nat
  slept :: "real list"

type_synonym 'r endpoint = "nat \<Rightarrow> exc + 'r"

text \<open>
  \<open>call_with_backoff\<close> of \<open>multi-agent/exam_grader_agents_multi_1.py\<close>. The
  \<open>for\<close> loop runs over \<open>range(1, MAX_RETRIES + 1)\<close>; its single handler catches
  \<open>(RateLimitError, OpenAIError, APIConnectionError, Timeout)\<close>, each name read as
  the exception class it is named after. A loop that ends without returning makes the
  function return \<open>None\<close>.
\<close>

fun attempts_multi :: "'r endpoint \<Rightarrow> real \<Rightarrow> nat list \<Rightarrow> io \<Rightarrow> (exc + 'r option) \<times> io" where
  "attempts_multi create backoff [] s = (Inr None, s)"
| "attempts_multi create backoff (attempt # rest) s =
     (case create (calls s) of
        Inr r \<Rightarrow> (Inr (Some r), s\<lparr>calls := calls s + 1\<rparr>)
      | Inl e \<Rightarrow>
          if e = RateLimitError \<or> is_OpenAIError e \<or> e = APIConnectionError \<or> e = Timeout then
            (if attempt = MAX_RETRIES then (Inl e, s\<lparr>calls := calls s + 1\<rparr>)
             else attempts_multi create backoff rest
                    (s\<lparr>calls := calls s + 1,
                       slept := slept s @ [backoff * 2 ^ (attempt - 1)]\<rparr>))
          else (Inl e, s\<lparr>calls := calls s + 1\<rparr>))"

definition call_with_backoff_multi :: "'r endpoint \<Rightarrow> io \<Rightarrow> (exc + 'r option) \<times> io" where
  "call_with_backoff_multi create s =
     attempts_multi create INITIAL_BACKOFF [1 ..< MAX_RETRIES + 1] s"

text \<open>
  \<open>call_with_backoff\<close> of \<open>narrative-agent/exam_grader_agents.py\<close>: two handlers
  with the same body, the first for \<open>(RateLimitError, ServiceUnavailableError)\<close>, the
  second for \<open>(APIConnectionError, Timeout)\<close>.
\<close>

fun attempts_narrative :: "'r endpoint \<Rightarrow> real \<Rightarrow> nat list \<Rightarrow> io \<Rightarrow> (exc + 'r option) \<times> io" where
  "attempts_narrative create backoff [] s = (Inr None, s)"
| "attempts_narrative create backoff (attempt # rest) s =
     (case create (calls s) of
        Inr r \<Rightarrow> (Inr (Some r), s\<lparr>calls := calls s + 1\<rparr>)
      | Inl e \<Rightarrow>
          if e = RateLimitError \<or> e = ServiceUnavailableError then
            (if attempt = MAX_RETRIES then (Inl e, s\<lparr>calls := calls s + 1\<rparr>)
             else attempts_narrative create backoff rest
                    (s\<lparr>calls := calls s + 1,
                       slept := slept s @ [backoff * 2 ^ (attempt - 1)]\<rparr>))
          else if e = APIConnectionError \<or> e = Timeout then
            (if attempt = MAX_RETRIES then (Inl e, s\<lparr>calls := calls s + 1\<rparr>)
             else attempts_narrative create backoff rest
                    (s\<lparr>calls := calls s + 1,
                       slept := slept s @ [backoff * 2 ^ (attempt - 1)]\<rparr>))
          else (Inl e, s\<lparr>calls := calls s + 1\<rparr>))"

definition call_with_backoff_narrative :: "'r endpoint \<Rightarrow> io \<Rightarrow> (exc + 'r option) \<times> io" where
  "call_with_backoff_narrative create s =
     attempts_narrative create INITIAL_BACKOFF [1 ..< MAX_RETRIES + 1] s"

text \<open>
  Both loops are instances of one loop, parametrised by the set of caught exceptions;
  the properties of the two wrappers are derived from it.
\<close>

fun retry_loop :: "(exc \<Rightarrow> bool) \<Rightarrow> 'r endpoint \<Rightarrow> real \<Rightarrow> nat list \<Rightarrow> io \<Rightarrow> (exc + 'r option) \<times> io" where
  "retry_loop caught create backoff [] s = (Inr None, s)"
| "retry_loop caught create backoff (attempt # rest) s =
     (case create (calls s) of
        Inr r \<Rightarrow> (Inr (Some r), s\<lparr>calls := calls s + 1\<rparr>)
      | Inl e \<Rightarrow>
          if caught e then
            (if attempt = MAX_RETRIES then (Inl e, s\<lparr>calls := calls s + 1\<rparr>)
             else retry_loop caught create backoff rest
                    (s\<lparr>calls := calls s + 1,
                       slept := slept s @ [backoff * 2 ^ (attempt - 1)]\<rparr>))
          else (Inl e, s\<lparr>calls := calls s + 1\<rparr>))"


section \<open>Strings, prompt templates and JSON values\<close>

text \<open>
  Python strings are modelled as lists of characters with code points below 256. The
  whitespace of \<open>str.strip()\<close> and \<open>str.split()\<close> in that range: tab, line feed,
  vertical tab, form feed, carriage return, the separators \<open>0x1C\<close> to \<open>0x1F\<close>, space,
  \<open>0x85\<close> and \<open>0xA0\<close>.
\<close>

definition py_isspace :: "char \<Rightarrow> bool" where
  "py_isspace c =
     (let n = (of_char c :: nat)
      in (9 \<le> n \<and> n \<le> 13) \<or> (28 \<le> n \<and> n \<le> 32) \<or> n = 133 \<or> n = 160)"

definition py_strip :: "string \<Rightarrow> string" where
  "py_strip s = rev (dropWhile py_isspace (rev (dropWhile py_isspace s)))"

text \<open>\<open>s.split()\<close>: the maximal runs of characters that are not whitespace.\<close>

fun split_words :: "string \<Rightarrow> string \<Rightarrow> string list" where
  "split_words w [] = (if w = [] then [] else [w])"
| "split_words w (c # cs) =
     (if py_isspace c then (if w = [] then split_words [] cs else w # split_words [] cs)
      else split_words (w @ [c]) cs)"

definition py_split :: "string \<Rightarrow> string list" where
  "py_split s = split_words [] s"

definition NL :: char where
  "NL = CHR 0x0A"

text \<open>\<open>"\n".join(lines)\<close>; the templates below are written line by line.\<close>

fun join_nl :: "string list \<Rightarrow> string" where
  "join_nl [] = []"
| "join_nl [l] = l"
| "join_nl (l # ls) = l @ NL # join_nl ls"

text \<open>
  \<open>TECHNICAL_PROMPT_TEMPLATE\<close> is one string constant in the source; its lines are listed
  here in two parts, the grading instructions and the output format with the rubric slot.
\<close>

definition technical_instructions :: "string list" where
  \<open>technical_instructions =
     ['''',
      ''You are a grading assistant for technical exams. Your role is to evaluate student responses based on the provided questions and, if available, the rubric.'',
      '''',
      ''### Grading Instructions:'',
      ''- For each question:'',
      ''  - Read the question and the student's answer.'',
      ''  - If a rubric is provided for that question, follow it carefully to assign points based on the expected criteria.'',
      ''  - If no rubric is provided, use your expert-level knowledge of the subject to assess:'',
      ''    - Factual accuracy.'',
      ''    - Completeness.'',
      ''    - Clarity.'',
      ''- Assign a score for each answer:'',
      ''  - Use the point scale from the rubric, or if none is provided, use a default scale of 0-10 points.'',
      ''- Provide feedback for each answer:'',
      ''  - Explain why the student received the score.'',
      ''  - Offer suggestions for improvement if the answer is incomplete or incorrect.'',
      '''',
      ''### Output Format:'',
      ''Respond ONLY with raw JSON (no markdown):'']\<close>

definition technical_output_format :: "string list" where
  \<open>technical_output_format =
     [''{'',
      ''  "question_1": {'',
      ''    "score": X,'',
      ''    "feedback": "..."'',
      ''  },'',
      ''  "question_2": {'',
      ''    "score": Y,'',
      ''    "feedback": "..."'',
      ''  },'',
      ''  ...'',
      ''  "total_score": Z'',
      ''}'',
      '''',
      ''### Rubric (if available):'',
      ''{rubric_markdown}'',
      '''']\<close>

definition TECHNICAL_PROMPT_TEMPLATE :: string where
  "TECHNICAL_PROMPT_TEMPLATE = join_nl (technical_instructions @ technical_output_format)"

definition NARRATIVE_PROMPT_WITH_RUBRIC :: string where
  \<open>NARRATIVE_PROMPT_WITH_RUBRIC = join_nl
     ['''',
      ''You are an exam grader. Use the rubric to assign each question a numeric score (0-10) and valuable concise feedback so the student can further understand their strengths and weaknesses of the material. Then compute the overall score as the average and provide general feedback. Return JSON.'',
      '''',
      ''### Output Format:'',
      ''Respond ONLY with raw JSON (no markdown):'',
      ''{'',
      ''  "question_1": {'',
      ''    "score": X,'',
      ''    "feedback": "..."'',
      ''  },'',
      ''  "question_2": {'',
      ''    "score": Y,'',
      ''    "feedback": "..."'',
      ''  },'',
      ''  ...'',
      ''  "total_score": Z'',
      ''}'',
      '''']\<close>

definition NARRATIVE_PROMPT_NO_RUBRIC :: string where
  \<open>NARRATIVE_PROMPT_NO_RUBRIC = join_nl
     ['''',
      ''You are an exam grader. The rubric is not available. Use your own criteria to assign each question a numeric score (0-10) and constructive feedback. Then compute the overall score as the average and provide general feedback. Return JSON.'',
      '''',
      ''### Output Format:'',
      ''Respond ONLY with raw JSON (no markdown):'',
      ''{'',
      ''  "question_1": {'',
      ''    "score": X,'',
      ''    "feedback": "..."'',
      ''  },'',
      ''  "question_2": {'',
      ''    "score": Y,'',
      ''    "feedback": "..."'',
      ''  },'',
      ''  ...'',
      ''  "total_score": Z'',
      ''}'',
      '''']\<close>

text \<open>
  \<open>str.format\<close> with keyword arguments only, as \<open>grade_exam\<close> calls it. The scanner
  follows CPython: \<open>{{\<close> and \<open>}}\<close> are literal braces, a single \<open>{\<close> or \<open>}\<close> in
  literal text is a \<open>ValueError\<close>; a replacement field's name runs to the first \<open>}\<close> or
  \<open>:\<close>, and a \<open>{\<close> in it is a \<open>ValueError\<close>; after a \<open>:\<close> the format specification
  runs to the matching brace, nested braces counted. The field is looked up once it has
  been read to its end: a name that is empty or a number refers to a positional argument
  (there is none: \<open>IndexError\<close>), any other name is a key of the keyword arguments
  (\<open>KeyError\<close> when absent). A field that is found and has no format specification is
  replaced by its value. Conversions (\<open>!r\<close>), attribute and index access, and the
  rendering of a field that is found under a format specification are outside this
  model (\<open>Unmodelled\<close>).
\<close>

datatype scan = Literal | FieldName string | FormatSpec string nat

definition lookup_field :: "(string \<times> string) list \<Rightarrow> string \<Rightarrow> exc + string" where
  "lookup_field kwargs name =
     (if name = [] \<or> (\<forall>c \<in> set name. 48 \<le> (of_char c :: nat) \<and> (of_char c :: nat) \<le> 57)
      then Inl IndexError
      else case map_of kwargs name of
             None \<Rightarrow> Inl (KeyError name)
           | Some v \<Rightarrow> Inr v)"

text \<open>The text produced so far is kept in reverse, newest character first.\<close>

fun format_scan :: "(string \<times> string) list \<Rightarrow> scan \<Rightarrow> string \<Rightarrow> string \<Rightarrow> exc + string" where
  "format_scan kwargs Literal out [] = Inr (rev out)"
| "format_scan kwargs Literal out [c] =
     (if c = CHR ''{'' \<or> c = CHR ''}'' then Inl ValueError else Inr (rev (c # out)))"
| "format_scan kwargs Literal out (c # d # cs) =
     (if c = CHR ''{'' then
        (if d = CHR ''{'' then format_scan kwargs Literal (c # out) cs
         else format_scan kwargs (FieldName []) out (d # cs))
      else if c = CHR ''}'' then
        (if d = CHR ''}'' then format_scan kwargs Literal (c # out) cs else Inl ValueError)
      else format_scan kwargs Literal (c # out) (d # cs))"
| "format_scan kwargs (FieldName name) out [] = Inl ValueError"
| "format_scan kwargs (FieldName name) out (c # cs) =
     (if c = CHR ''{'' then Inl ValueError
      else if c = CHR ''}'' then
        (case lookup_field kwargs name of
           Inl e \<Rightarrow> Inl e
         | Inr v \<Rightarrow> format_scan kwargs Literal (rev v @ out) cs)
      else if c = CHR '':'' then format_scan kwargs (FormatSpec name 1) out cs
      else if c = CHR ''!'' \<or> c = CHR ''['' \<or> c = CHR ''.'' then Inl Unmodelled
      else format_scan kwargs (FieldName (name @ [c])) out cs)"
| "format_scan kwargs (FormatSpec name depth) out [] = Inl ValueError"
| "format_scan kwargs (FormatSpec name depth) out (c # cs) =
     (if c = CHR ''{'' then format_scan kwargs (FormatSpec name (depth + 1)) out cs
      else if c = CHR ''}'' then
        (if depth = 1 then
           (case lookup_field kwargs name of
              Inl e \<Rightarrow> Inl e
            | Inr v \<Rightarrow> Inl Unmodelled)
         else format_scan kwargs (FormatSpec name (depth - 1)) out cs)
      else format_scan kwargs (FormatSpec name depth) out cs)"

definition py_format :: "string \<Rightarrow> (string \<times> string) list \<Rightarrow> exc + string" where
  "py_format template kwargs = format_scan kwargs Literal [] template"

text \<open>
  The value \<open>json.loads\<close> returns: \<open>None\<close>, a bool, an int, a float (modelled by the
  real number it stands for), a string, a list or a dict (its items in insertion order,
  each key once).
\<close>

datatype json =
    JNull
  | JBool bool
  | JInt int
  | JFloat real
  | JStr string
  | JList "json list"
  | JDict "(string \<times> json) list"

text \<open>\<open>d[k] = v\<close> on a dict: an existing key keeps its place and takes the new value.\<close>

fun dict_set :: "string \<Rightarrow> json \<Rightarrow> (string \<times> json) list \<Rightarrow> (string \<times> json) list" where
  "dict_set k v [] = [(k, v)]"
| "dict_set k v ((k', v') # kvs) =
     (if k = k' then (k, v) # kvs else (k', v') # dict_set k v kvs)"

text \<open>\<open>d.get(k)\<close> on a decoded value; \<open>None\<close> when it is not a dict or has no such key.\<close>

definition json_get :: "json \<Rightarrow> string \<Rightarrow> json option" where
  "json_get v k = (case v of JDict kvs \<Rightarrow> map_of kvs k | _ \<Rightarrow> None)"

subsection \<open>A decoder for the examples\<close>

text \<open>
  \<open>json.loads\<close> belongs to the Python library; the grading functions below take the
  decoder as a parameter \<open>loads\<close> (\<open>None\<close> stands for \<open>JSONDecodeError\<close>), and their
  properties hold for every decoder. To run the functions on concrete response texts,
  \<open>json_loads\<close> decodes the JSON grammar over characters below 256, without escape
  sequences in strings and without the constants \<open>NaN\<close> and \<open>Infinity\<close>; it rejects every
  other text, so it is applied only to texts of that fragment.
\<close>

definition is_digit :: "char \<Rightarrow> bool" where
  "is_digit c = (48 \<le> (of_char c :: nat) \<and> (of_char c :: nat) \<le> 57)"

definition json_ws :: "char \<Rightarrow> bool" where
  "json_ws c = (c = CHR '' '' \<or> c = CHR 0x09 \<or> c = CHR 0x0A \<or> c = CHR 0x0D)"

definition skip_ws :: "string \<Rightarrow> string" where
  "skip_ws s = dropWhile json_ws s"

definition starts :: "char \<Rightarrow> string \<Rightarrow> bool" where
  "starts c s = (case s of [] \<Rightarrow> False | d # _ \<Rightarrow> d = c)"

definition digits_value :: "string \<Rightarrow> nat" where
  "digits_value ds = foldl (\<lambda>n c. 10 * n + (of_char c - 48)) 0 ds"

text \<open>The characters of a string after its opening quote, up to the closing quote.\<close>

fun scan_string :: "string \<Rightarrow> string \<Rightarrow> (string \<times> string) option" where
  "scan_string acc [] = None"
| "scan_string acc (c # cs) =
     (if c = CHR 0x22 then Some (rev acc, cs)
      else if c = CHR 0x5C \<or> (of_char c :: nat) < 32 then None
      else scan_string (c # acc) cs)"

text \<open>
  A number: \<open>-?(0|[1-9][0-9]*)(\.[0-9]+)?([eE][-+]?[0-9]+)?\<close>, the longest match. Without
  fraction and exponent it is an int, otherwise a float.
\<close>

definition scan_number :: "string \<Rightarrow> (json \<times> string) option" where
  "scan_number s =
     (let neg = starts (CHR ''-'') s;
          s1 = (if neg then tl s else s);
          ip = (if starts (CHR ''0'') s1 then ''0'' else takeWhile is_digit s1);
          s2 = drop (length ip) s1;
          has_frac = (starts (CHR ''.'') s2 \<and> takeWhile is_digit (tl s2) \<noteq> []);
          fp = (if has_frac then takeWhile is_digit (tl s2) else []);
          s3 = (if has_frac then dropWhile is_digit (tl s2) else s2);
          s4 = tl s3;
          neg_exp = starts (CHR ''-'') s4;
          s5 = (if starts (CHR ''-'') s4 \<or> starts (CHR ''+'') s4 then tl s4 else s4);
          has_exp = ((starts (CHR ''e'') s3 \<or> starts (CHR ''E'') s3) \<and> takeWhile is_digit s5 \<noteq> []);
          ep = (if has_exp then takeWhile is_digit s5 else []);
          s6 = (if has_exp then dropWhile is_digit s5 else s3);
          sign = (if neg then - 1 else 1 :: int)
      in if ip = [] then None
         else if \<not> has_frac \<and> \<not> has_exp then Some (JInt (sign * int (digits_value ip)), s6)
         else
           let mantissa = real (digits_value ip) + real (digits_value fp) / 10 ^ length fp;
               scaled = (if neg_exp then mantissa / 10 ^ digits_value ep
                         else mantissa * 10 ^ digits_value ep)
           in Some (JFloat (real_of_int sign * scaled), s6))"

text \<open>
  Values, array elements and object members. The first argument bounds the number of
  nested calls; \<open>json_loads\<close> starts with more than the text can use.
\<close>

fun parse_value :: "nat \<Rightarrow> string \<Rightarrow> (json \<times> string) option"
  and parse_elements :: "nat \<Rightarrow> json list \<Rightarrow> string \<Rightarrow> (json \<times> string) option"
  and parse_members :: "nat \<Rightarrow> (string \<times> json) list \<Rightarrow> string \<Rightarrow> (json \<times> string) option"
where
  "parse_value 0 s = None"
| "parse_value (Suc n) s =
     (if starts (CHR 0x22) s then
        (case scan_string [] (tl s) of None \<Rightarrow> None | Some (t, r) \<Rightarrow> Some (JStr t, r))
      else if starts (CHR ''{'') s then
        (if starts (CHR ''}'') (skip_ws (tl s)) then Some (JDict [], tl (skip_ws (tl s)))
         else parse_members n [] (skip_ws (tl s)))
      else if starts (CHR ''['') s then
        (if starts (CHR '']'') (skip_ws (tl s)) then Some (JList [], tl (skip_ws (tl s)))
         else parse_elements n [] (skip_ws (tl s)))
      else if take 4 s = ''null'' then Some (JNull, drop 4 s)
      else if take 4 s = ''true'' then Some (JBool True, drop 4 s)
      else if take 5 s = ''false'' then Some (JBool False, drop 5 s)
      else scan_number s)"
| "parse_elements 0 acc s = None"
| "parse_elements (Suc n) acc s =
     (case parse_value n s of
        None \<Rightarrow> None
      | Some (v, r) \<Rightarrow>
          if starts (CHR '','') (skip_ws r) then parse_elements n (acc @ [v]) (skip_ws (tl (skip_ws r)))
          else if starts (CHR '']'') (skip_ws r) then Some (JList (acc @ [v]), tl (skip_ws r))
          else None)"
| "parse_members 0 acc s = None"
| "parse_members (Suc n) acc s =
     (if \<not> starts (CHR 0x22) s then None
      else case scan_string [] (tl s) of
        None \<Rightarrow> None
      | Some (k, r) \<Rightarrow>
          if \<not> starts (CHR '':'') (skip_ws r) then None
          else case parse_value n (skip_ws (tl (skip_ws r))) of
            None \<Rightarrow> None
          | Some (v, r') \<Rightarrow>
              if starts (CHR '','') (skip_ws r') then
                parse_members n (dict_set k v acc) (skip_ws (tl (skip_ws r')))
              else if starts (CHR ''}'') (skip_ws r') then
                Some (JDict (dict_set k v acc), tl (skip_ws r'))
              else None)"

definition json_loads :: "string \<Rightarrow> json option" where
  "json_loads s =
     (case parse_value (2 * length s + 2) (skip_ws s) of
        None \<Rightarrow> None
      | Some (v, r) \<Rightarrow> if skip_ws r = [] then Some v else None)"

text \<open>Text without braces, which \<open>str.format\<close> copies unchanged.\<close>

definition brace_free :: "string \<Rightarrow> bool" where
  "brace_free l = (\<forall>c \<in> set l. c \<noteq> CHR ''{'' \<and> c \<noteq> CHR ''}'')"

section \<open>Grading through the chat completion oracle\<close>

text \<open>
  The keyword arguments of a chat completion call: the model, the messages as
  (role, content) pairs, the temperature, the seed and the forced function call, when
  given. (The narrative-agent also passes the constant JSON schema of its function,
  which plays no part here.) The oracle answers a request with the text the caller reads
  from the response: \<open>message.content\<close>, or \<open>message.function_call.arguments\<close>.
\<close>

record chat_request =
  model :: string
  messages :: "(string \<times> string) list"
  temperature :: real
  seed :: "int option"
  function_call :: "string option"

type_synonym chat_api = "chat_request \<Rightarrow> string endpoint"

text \<open>
  The first half of the multi-agent \<open>grade_exam\<close>: the system and user prompts for the
  declared exam type. Only \<open>"technical"\<close> is tested for; the \<open>else\<close> branch is the
  narrative grader.
\<close>

definition grade_exam_prompts :: "string \<Rightarrow> string \<Rightarrow> string \<Rightarrow> string \<Rightarrow> exc + (string \<times> string)" where
  "grade_exam_prompts rubric questions responses exam_type =
     (let rubric_markdown = (if py_strip rubric \<noteq> [] then py_strip rubric else ''No rubric provided.'')
      in if exam_type = ''technical'' then
           (case py_format TECHNICAL_PROMPT_TEMPLATE [(''rubric_markdown'', rubric_markdown)] of
              Inl e \<Rightarrow> Inl e
            | Inr t \<Rightarrow>
                Inr (''You are a helpful technical exam grader.'',
                     t @ [NL, NL] @ ''Questions:'' @ [NL] @ questions @ [NL, NL] @
                     ''Student Responses:'' @ [NL] @ responses))
         else if py_strip rubric \<noteq> [] then
           Inr (NARRATIVE_PROMPT_WITH_RUBRIC,
                ''Rubric:'' @ [NL] @ rubric @ [NL, NL] @ ''Questions:'' @ [NL] @ questions @ [NL, NL] @
                ''Student Responses:'' @ [NL] @ responses)
         else
           Inr (NARRATIVE_PROMPT_NO_RUBRIC,
                ''Questions:'' @ [NL] @ questions @ [NL, NL] @ ''Student Responses:'' @ [NL] @ responses))"

definition multi_request :: "string \<Rightarrow> string \<Rightarrow> chat_request" where
  "multi_request system_prompt user_prompt =
     \<lparr>model = ''gpt-4-0613'',
      messages = [(''system'', system_prompt), (''user'', user_prompt)],
      temperature = 0, seed = Some 42, function_call = None\<rparr>"

text \<open>
  The multi-agent \<open>grade_exam\<close>. A response that does not decode becomes the dict
  \<open>{"error": "Invalid JSON", "raw": raw_response}\<close>; one that decodes is returned as
  decoded. (Should the wrapper return \<open>None\<close>, reading \<open>resp.choices\<close> raises
  \<open>AttributeError\<close>.)
\<close>

definition grade_exam_multi ::
  "(string \<Rightarrow> json option) \<Rightarrow> chat_api \<Rightarrow> string \<Rightarrow> string \<Rightarrow> string \<Rightarrow> string \<Rightarrow> io \<Rightarrow> (exc + json) \<times> io" where
  "grade_exam_multi loads api rubric questions responses exam_type s =
     (case grade_exam_prompts rubric questions responses exam_type of
        Inl e \<Rightarrow> (Inl e, s)
      | Inr (system_prompt, user_prompt) \<Rightarrow>
          (case call_with_backoff_multi (api (multi_request system_prompt user_prompt)) s of
             (Inl e, s') \<Rightarrow> (Inl e, s')
           | (Inr None, s') \<Rightarrow> (Inl AttributeError, s')
           | (Inr (Some raw_response), s') \<Rightarrow>
               (case loads raw_response of
                  Some v \<Rightarrow> (Inr v, s')
                | None \<Rightarrow>
                    (Inr (JDict [(''error'', JStr ''Invalid JSON''), (''raw'', JStr raw_response)]), s'))))"

text \<open>The narrative-agent \<open>grade_exam\<close>: one fixed prompt, and \<open>json.loads\<close> without a handler.\<close>

definition narrative_request :: "string \<Rightarrow> string \<Rightarrow> string \<Rightarrow> chat_request" where
  "narrative_request rubric questions responses =
     \<lparr>model = ''gpt-4-0613'',
      messages =
        [(''system'',
          ''You are an exam grader. Use the rubric to assign each question a numeric score (0-10) and concise feedback. '' @
          ''Then compute the overall score as the average and provide general feedback. Return JSON.''),
         (''user'',
          ''Rubric:'' @ [NL] @ rubric @ [NL, NL] @ ''Questions:'' @ [NL] @ questions @ [NL, NL] @
          ''Student Responses:'' @ [NL] @ responses)],
      temperature = 0.3, seed = None, function_call = Some ''generate_exam_responses''\<rparr>"

definition grade_exam_narrative ::
  "(string \<Rightarrow> json option) \<Rightarrow> chat_api \<Rightarrow> string \<Rightarrow> string \<Rightarrow> string \<Rightarrow> io \<Rightarrow> (exc + json) \<times> io" where
  "grade_exam_narrative loads api rubric questions responses s =
     (case call_with_backoff_narrative (api (narrative_request rubric questions responses)) s of
        (Inl e, s') \<Rightarrow> (Inl e, s')
      | (Inr None, s') \<Rightarrow> (Inl AttributeError, s')
      | (Inr (Some arguments), s') \<Rightarrow>
          (case loads arguments of
             Some v \<Rightarrow> (Inr v, s')
           | None \<Rightarrow> (Inl JSONDecodeError, s')))"

subsection \<open>What the specification says about a grading result\<close>

text \<open>
  The notions the specification uses for a result, read off the output format of the
  prompts: every key other than \<open>total_score\<close> is a part, a dict with a numeric \<open>score\<close>
  between 0 and 10 and a \<open>feedback\<close> string; \<open>total_score\<close> is the overall score. The
  declared aggregations are the mean (narrative prompts) and the sum of the part scores.
\<close>

definition number_of :: "json \<Rightarrow> real option" where
  "number_of v = (case v of JInt i \<Rightarrow> Some (real_of_int i) | JFloat r \<Rightarrow> Some r | _ \<Rightarrow> None)"

definition total_score :: "json \<Rightarrow> real option" where
  "total_score v = (case json_get v ''total_score'' of None \<Rightarrow> None | Some t \<Rightarrow> number_of t)"

definition part_scores :: "json \<Rightarrow> real list" where
  "part_scores v =
     (case v of
        JDict kvs \<Rightarrow>
          concat (map (\<lambda>(k, p). if k = ''total_score'' then []
                                else case json_get p ''score'' of
                                       None \<Rightarrow> []
                                     | Some x \<Rightarrow> (case number_of x of None \<Rightarrow> [] | Some r \<Rightarrow> [r])) kvs)
      | _ \<Rightarrow> [])"

definition mean :: "real list \<Rightarrow> real" where
  "mean xs = sum_list xs / real (length xs)"

definition valid_part :: "json \<Rightarrow> bool" where
  "valid_part p =
     ((case json_get p ''score'' of
         None \<Rightarrow> False
       | Some x \<Rightarrow> (case number_of x of None \<Rightarrow> False | Some r \<Rightarrow> 0 \<le> r \<and> r \<le> 10)) \<and>
      (case json_get p ''feedback'' of Some (JStr f) \<Rightarrow> True | _ \<Rightarrow> False))"

definition valid_evaluation :: "json \<Rightarrow> bool" where
  "valid_evaluation v =
     (case v of
        JDict kvs \<Rightarrow> total_score v \<noteq> None \<and> list_all (\<lambda>(k, p). k = ''total_score'' \<or> valid_part p) kvs
      | _ \<Rightarrow> False)"

text \<open>The result \<open>grade_exam\<close> builds for a response that does not decode, with its raw text.\<close>

definition parse_failure :: "string \<Rightarrow> json" where
  "parse_failure raw = JDict [(''error'', JStr ''Invalid JSON''), (''raw'', JStr raw)]"

subsection \<open>Example oracles\<close>

text \<open>
  Responses used in the examples: a well-formed grading whose self-reported total (3)
  is not the score of its only question (8); a response that is JSON but has neither a
  score nor a total; and a text that is not JSON.
\<close>

definition graded_text :: string where
  \<open>graded_text = ''{"question_1": {"score": 8, "feedback": "ok"}, "total_score": 3}''\<close>

definition graded_value :: json where
  "graded_value =
     JDict [(''question_1'', JDict [(''score'', JInt 8), (''feedback'', JStr ''ok'')]),
            (''total_score'', JInt 3)]"

definition incomplete_text :: string where
  \<open>incomplete_text = ''{"question_1": {"feedback": "ok"}}''\<close>

definition incomplete_value :: json where
  "incomplete_value = JDict [(''question_1'', JDict [(''feedback'', JStr ''ok'')])]"

definition not_json_text :: string where
  "not_json_text = ''not json''"

text \<open>An oracle that answers every request with the same text, at the first attempt.\<close>

definition answers :: "string \<Rightarrow> chat_api" where
  "answers text = (\<lambda>req n. Inr text)"


definition io0 :: io where
  "io0 = \<lparr>calls = 0, slept = []\<rparr>"

section \<open>The transcript cache and the audio metrics\<close>

text \<open>
  The part of the world \<open>transcribe\<close> touches: the files by path (contents as text),
  the paths that cannot be opened for writing, and the number of transcription requests
  sent so far. The transcription service answers the contents of an audio file with a
  string or with an object that may have a \<open>text\<close> entry.
\<close>

record world =
  files :: "string \<rightharpoonup> string"
  unwritable :: "string \<Rightarrow> bool"
  whisper_calls :: nat

datatype whisper_response = Text string | Object "(string \<times> string) list"

type_synonym whisper_api = "string \<Rightarrow> whisper_response endpoint"

text \<open>\<open>os.path.basename\<close> and \<open>os.path.join\<close> on POSIX paths.\<close>

definition basename :: "string \<Rightarrow> string" where
  "basename path = rev (takeWhile (\<lambda>c. c \<noteq> CHR ''/'') (rev path))"

definition path_join :: "string \<Rightarrow> string \<Rightarrow> string" where
  "path_join a b =
     (if starts (CHR ''/'') b then b
      else if a = [] \<or> last a = CHR ''/'' then a @ b
      else a @ ''/'' @ b)"

text \<open>\<open>RUBRIC_CACHE_DIR\<close> is \<open>cache\<close> under the working directory of the process.\<close>

definition RUBRIC_CACHE_DIR :: "string \<Rightarrow> string" where
  "RUBRIC_CACHE_DIR cwd = path_join cwd ''cache''"

definition cache_file :: "string \<Rightarrow> string \<Rightarrow> string" where
  "cache_file cwd mp3_path = path_join (RUBRIC_CACHE_DIR cwd) (basename mp3_path @ ''.txt'')"

text \<open>
  \<open>transcribe\<close> of the multi-agent module. A cached transcript is returned as stored.
  Otherwise the audio file is opened (\<open>FileNotFoundError\<close> when it is missing), the
  service is asked, the transcript is written to the cache file and returned. No
  statement of the function handles an exception: a failure of the service or of the
  write leaves the function as that exception.
\<close>

definition transcribe :: "whisper_api \<Rightarrow> string \<Rightarrow> string \<Rightarrow> world \<Rightarrow> (exc + string) \<times> world" where
  "transcribe whisper cwd mp3_path w =
     (case files w (cache_file cwd mp3_path) of
        Some cached \<Rightarrow> (Inr cached, w)
      | None \<Rightarrow>
          (case files w mp3_path of
             None \<Rightarrow> (Inl FileNotFoundError, w)
           | Some audio \<Rightarrow>
               (case whisper audio (whisper_calls w) of
                  Inl e \<Rightarrow> (Inl e, w\<lparr>whisper_calls := whisper_calls w + 1\<rparr>)
                | Inr resp \<Rightarrow>
                    (let transcript =
                           (case resp of
                              Text t \<Rightarrow> t
                            | Object d \<Rightarrow> (case map_of d ''text'' of Some t \<Rightarrow> t | None \<Rightarrow> ''''))
                     in if unwritable w (cache_file cwd mp3_path) then
                          (Inl OSError, w\<lparr>whisper_calls := whisper_calls w + 1\<rparr>)
                        else
                          (Inr transcript,
                           w\<lparr>whisper_calls := whisper_calls w + 1,
                             files := (files w)(cache_file cwd mp3_path \<mapsto> transcript)\<rparr>)))))"

text \<open>
  What \<open>librosa\<close> yields for an audio file: the number of samples \<open>len(y)\<close> at the
  requested rate \<open>sr = 16000\<close>, and the non-silent intervals \<open>(s, e)\<close> of
  \<open>librosa.effects.split\<close>, in samples; the two library calls are taken together, as
  one load that succeeds or raises. Python floats are modelled by the real numbers they
  stand for; a division raises \<open>ZeroDivisionError\<close> when the divisor is zero.
\<close>

record loaded_audio =
  samples :: nat
  intervals :: "(int \<times> int) list"

record audio_metrics =
  duration :: real
  wpm :: real
  silence_ratio :: real
  transcript :: string

definition sr :: real where
  "sr = 16000"

definition py_truediv :: "real \<Rightarrow> real \<Rightarrow> exc + real" where
  "py_truediv a b = (if b = 0 then Inl ZeroDivisionError else Inr (a / b))"

definition and_then :: "exc + 'a \<Rightarrow> ('a \<Rightarrow> exc + 'b) \<Rightarrow> exc + 'b" where
  "and_then r f = (case r of Inl e \<Rightarrow> Inl e | Inr x \<Rightarrow> f x)"

definition word_count :: "string \<Rightarrow> nat" where
  "word_count text = length (py_split text)"

definition voiced_samples :: "loaded_audio \<Rightarrow> int" where
  "voiced_samples a = sum_list (map (\<lambda>(s, e). e - s) (intervals a))"

text \<open>
  The arithmetic of the multi-agent \<open>analyze_audio\<close>, after the audio is loaded and
  transcribed: both quotients by the duration are guarded by \<open>if duration else 0\<close>.
\<close>

definition metrics_multi :: "loaded_audio \<Rightarrow> string \<Rightarrow> exc + audio_metrics" where
  "metrics_multi a text =
     and_then (py_truediv (real (samples a)) sr) (\<lambda>duration.
     and_then (if duration \<noteq> 0
               then and_then (py_truediv duration 60) (py_truediv (real (word_count text)))
               else Inr 0) (\<lambda>wpm.
     and_then (py_truediv (real_of_int (voiced_samples a)) sr) (\<lambda>voiced.
     and_then (if duration \<noteq> 0 then py_truediv (duration - voiced) duration else Inr 0)
       (\<lambda>silence_ratio.
     Inr \<lparr>duration = duration, wpm = wpm, silence_ratio = silence_ratio, transcript = text\<rparr>))))"

definition analyze_audio_multi ::
  "(string \<Rightarrow> exc + loaded_audio) \<Rightarrow> whisper_api \<Rightarrow> string \<Rightarrow> string \<Rightarrow> world \<Rightarrow>
   (exc + audio_metrics) \<times> world" where
  "analyze_audio_multi load whisper cwd mp3_path w =
     (case load mp3_path of
        Inl e \<Rightarrow> (Inl e, w)
      | Inr a \<Rightarrow>
          (case transcribe whisper cwd mp3_path w of
             (Inl e, w') \<Rightarrow> (Inl e, w')
           | (Inr text, w') \<Rightarrow> (metrics_multi a text, w')))"

text \<open>
  The same arithmetic in \<open>analyze_audio\<close> of \<open>exam_grader_agents.py\<close>, where the
  quotients are not guarded.
\<close>

definition metrics_agents :: "loaded_audio \<Rightarrow> string \<Rightarrow> exc + audio_metrics" where
  "metrics_agents a text =
     and_then (py_truediv (real (samples a)) sr) (\<lambda>duration.
     and_then (and_then (py_truediv duration 60) (py_truediv (real (word_count text)))) (\<lambda>wpm.
     and_then (py_truediv (real_of_int (voiced_samples a)) sr) (\<lambda>voiced.
     and_then (py_truediv (duration - voiced) duration) (\<lambda>silence_ratio.
     Inr \<lparr>duration = duration, wpm = wpm, silence_ratio = silence_ratio, transcript = text\<rparr>))))"

section \<open>The audio guardrail of the VC pitch agent\<close>








subsection \<open>Example worlds\<close>

text \<open>
  A world holding one audio file and an empty cache; the same world with every path
  closed for writing; a transcription service that always answers \<open>hello world\<close>; a
  check oracle that always finds audio.
\<close>

definition pitch_world :: world where
  "pitch_world = \<lparr>files = [''/in/pitch.mp3'' \<mapsto> ''AUDIO''], unwritable = (\<lambda>p. False), whisper_calls = 0\<rparr>"


definition hello_whisper :: whisper_api where
  "hello_whisper = (\<lambda>audio n. Inr (Text ''hello world''))"



text \<open>
  A three-minute recording (2880000 samples at 16 kHz) with 165.6 seconds of voice,
  and an empty recording.
\<close>

definition pitch_audio :: loaded_audio where
  "pitch_audio = \<lparr>samples = 2880000, intervals = [(0, 1440000), (1600000, 2809600)]\<rparr>"

definition empty_audio :: loaded_audio where
  "empty_audio = \<lparr>samples = 0, intervals = []\<rparr>"

section \<open>Properties of the retry wrapper\<close>

lemma attempts_multi_retry_loop:
  "attempts_multi create b as s = retry_loop is_OpenAIError create b as s"
  by (induction as arbitrary: s) (auto simp: is_OpenAIError_def split: sum.splits)

lemma attempts_narrative_retry_loop:
  "attempts_narrative create b as s = retry_loop transient create b as s"
  by (induction as arbitrary: s) (auto simp: transient_def split: sum.splits)







lemma retry_loop_not_caught:
  assumes "create (calls s) = Inl e" and "\<not> caught e"
  shows "retry_loop caught create b [1 ..< MAX_RETRIES + 1] s = (Inl e, s\<lparr>calls := calls s + 1\<rparr>)"
proof -
  have "[1 ..< MAX_RETRIES + 1] = 1 # [2 ..< MAX_RETRIES + 1]"
    by (simp add: MAX_RETRIES_def upt_conv_Cons)
  then show ?thesis using assms by simp
qed










lemma attempts_range: "[1 ..< MAX_RETRIES + 1] = [1, 2, 3]"
  by (simp add: MAX_RETRIES_def upt_conv_Cons)

lemma call_with_backoff_narrative_fail_fast:
  assumes "create (calls s) = Inl e" and "\<not> transient e"
  shows "call_with_backoff_narrative create s = (Inl e, s\<lparr>calls := calls s + 1\<rparr>)"
  using assms unfolding call_with_backoff_narrative_def attempts_narrative_retry_loop
  by (rule retry_loop_not_caught)

lemma call_with_backoff_multi_fail_fast:
  assumes "create (calls s) = Inl e" and "\<not> is_OpenAIError e"
  shows "call_with_backoff_multi create s = (Inl e, s\<lparr>calls := calls s + 1\<rparr>)"
  using assms unfolding call_with_backoff_multi_def attempts_multi_retry_loop
  by (rule retry_loop_not_caught)


section \<open>Properties of grade_exam\<close>

lemma first_call_succeeds_multi:
  "create (calls s) = Inr r \<Longrightarrow>
   call_with_backoff_multi create s = (Inr (Some r), s\<lparr>calls := calls s + 1\<rparr>)"
  unfolding call_with_backoff_multi_def attempts_range by simp

lemma first_call_succeeds_narrative:
  "create (calls s) = Inr r \<Longrightarrow>
   call_with_backoff_narrative create s = (Inr (Some r), s\<lparr>calls := calls s + 1\<rparr>)"
  unfolding call_with_backoff_narrative_def attempts_range by simp

lemma narrative_prompts:
  "exam_type \<noteq> ''technical'' \<Longrightarrow>
   grade_exam_prompts rubric questions responses exam_type =
     (if py_strip rubric \<noteq> [] then
        Inr (NARRATIVE_PROMPT_WITH_RUBRIC,
             ''Rubric:'' @ [NL] @ rubric @ [NL, NL] @ ''Questions:'' @ [NL] @ questions @ [NL, NL] @
             ''Student Responses:'' @ [NL] @ responses)
      else
        Inr (NARRATIVE_PROMPT_NO_RUBRIC,
             ''Questions:'' @ [NL] @ questions @ [NL, NL] @ ''Student Responses:'' @ [NL] @ responses))"
  by (simp add: grade_exam_prompts_def)

lemma decode_graded_text: "json_loads graded_text = Some graded_value"
  unfolding graded_text_def graded_value_def by code_simp

lemma decode_incomplete_text: "json_loads incomplete_text = Some incomplete_value"
  unfolding incomplete_text_def incomplete_value_def by code_simp

lemma decode_not_json_text: "json_loads not_json_text = None"
  unfolding not_json_text_def by code_simp

lemma grade_exam_multi_answers:
  assumes "exam_type \<noteq> ''technical''"
  shows "grade_exam_multi loads (answers text) rubric questions responses exam_type s =
     ((case loads text of Some v \<Rightarrow> Inr v | None \<Rightarrow> Inr (parse_failure text)),
      s\<lparr>calls := calls s + 1\<rparr>)"
  using assms
  by (simp add: grade_exam_multi_def narrative_prompts first_call_succeeds_multi answers_def
      parse_failure_def split: option.splits)

lemma grade_exam_narrative_answers:
  "grade_exam_narrative loads (answers text) rubric questions responses s =
     ((case loads text of Some v \<Rightarrow> Inr v | None \<Rightarrow> Inl JSONDecodeError),
      s\<lparr>calls := calls s + 1\<rparr>)"
  by (simp add: grade_exam_narrative_def first_call_succeeds_narrative answers_def
      split: option.splits)

text \<open>
  Claim C1, as stated, fails: the orchestrator does not recompute the overall score. An
  oracle whose response reports \<open>total_score\<close> 3 for a single question scored 8 gets
  that response back from \<open>grade_exam\<close>: the total is neither the mean nor the sum of the
  part scores.
\<close>

theorem grade_exam_total_score_counterexample:
  "fst (grade_exam_multi json_loads (answers graded_text) '''' ''Q'' ''A'' ''narrative'' io0) =
     Inr graded_value \<and>
   part_scores graded_value = [8] \<and>
   total_score graded_value = Some 3 \<and>
   mean [8] \<noteq> 3 \<and> sum_list [8 :: real] \<noteq> 3"
  by (simp add: grade_exam_multi_answers decode_graded_text part_scores_def total_score_def
      json_get_def number_of_def mean_def graded_value_def)

text \<open>
  Claim C1, amended. Both versions of \<open>grade_exam\<close> return the decoded oracle response
  unchanged: whenever the retry wrapper hands back a response text that decodes to
  \<open>v\<close>, the result is \<open>v\<close> itself, so its overall score (\<open>total_score\<close>, and
  \<open>overall_score\<close> in the narrative-agent) is the oracle's self-reported value, not a
  value recomputed from the parts.
\<close>

theorem grade_exam_returns_oracle_total:
  "(grade_exam_prompts rubric questions responses exam_type = Inr (system_prompt, user_prompt) \<and>
    fst (call_with_backoff_multi (api (multi_request system_prompt user_prompt)) s) = Inr (Some raw) \<and>
    loads raw = Some v \<longrightarrow>
      fst (grade_exam_multi loads api rubric questions responses exam_type s) = Inr v) \<and>
   (fst (call_with_backoff_narrative (api (narrative_request rubric questions responses)) s) =
      Inr (Some raw) \<and>
    loads raw = Some v \<longrightarrow>
      fst (grade_exam_narrative loads api rubric questions responses s) = Inr v)"
proof (intro conjI impI)
  assume h: "grade_exam_prompts rubric questions responses exam_type = Inr (system_prompt, user_prompt) \<and>
    fst (call_with_backoff_multi (api (multi_request system_prompt user_prompt)) s) = Inr (Some raw) \<and>
    loads raw = Some v"
  then obtain s' where
    "call_with_backoff_multi (api (multi_request system_prompt user_prompt)) s = (Inr (Some raw), s')"
    by (metis prod.collapse)
  with h show "fst (grade_exam_multi loads api rubric questions responses exam_type s) = Inr v"
    by (simp add: grade_exam_multi_def)
next
  assume h: "fst (call_with_backoff_narrative (api (narrative_request rubric questions responses)) s) =
      Inr (Some raw) \<and> loads raw = Some v"
  then obtain s' where
    "call_with_backoff_narrative (api (narrative_request rubric questions responses)) s =
       (Inr (Some raw), s')"
    by (metis prod.collapse)
  with h show "fst (grade_exam_narrative loads api rubric questions responses s) = Inr v"
    by (simp add: grade_exam_narrative_def)
qed

theorem grade_exam_returns_oracle_total_witness:
  "fst (grade_exam_multi json_loads (answers graded_text) ''Explain each step.'' ''Q'' ''A''
          ''narrative'' io0) = Inr graded_value \<and>
   fst (grade_exam_narrative json_loads (answers graded_text) ''Explain each step.'' ''Q'' ''A'' io0) =
     Inr graded_value \<and>
   total_score graded_value = Some 3"
proof -
  let ?R = "''Explain each step.''"
  let ?U = "''Rubric:'' @ [NL] @ ?R @ [NL, NL] @ ''Questions:'' @ [NL] @ ''Q'' @ [NL, NL] @
             ''Student Responses:'' @ [NL] @ ''A''"
  have strip: "py_strip ?R \<noteq> []"
    by (simp add: py_strip_def py_isspace_def)
  have p: "grade_exam_prompts ?R ''Q'' ''A'' ''narrative'' = Inr (NARRATIVE_PROMPT_WITH_RUBRIC, ?U)"
    using strip by (simp add: narrative_prompts)
  have m: "fst (call_with_backoff_multi
             (answers graded_text (multi_request NARRATIVE_PROMPT_WITH_RUBRIC ?U)) io0) =
           Inr (Some graded_text)"
    by (simp add: first_call_succeeds_multi answers_def)
  have n: "fst (call_with_backoff_narrative
             (answers graded_text (narrative_request ?R ''Q'' ''A'')) io0) = Inr (Some graded_text)"
    by (simp add: first_call_succeeds_narrative answers_def)
  note inst = grade_exam_returns_oracle_total
    [where rubric = ?R and questions = "''Q''" and responses = "''A''" and exam_type = "''narrative''"
       and system_prompt = NARRATIVE_PROMPT_WITH_RUBRIC and user_prompt = ?U
       and api = "answers graded_text" and s = io0 and raw = graded_text and loads = json_loads
       and v = graded_value]
  have 1: "fst (grade_exam_multi json_loads (answers graded_text) ?R ''Q'' ''A'' ''narrative'' io0) =
      Inr graded_value"
    using inst p m decode_graded_text by blast
  have 2: "fst (grade_exam_narrative json_loads (answers graded_text) ?R ''Q'' ''A'' io0) =
      Inr graded_value"
    using inst n decode_graded_text by blast
  have 3: "total_score graded_value = Some 3"
    by (simp add: total_score_def json_get_def number_of_def graded_value_def)
  from 1 2 3 show ?thesis by simp
qed

text \<open>
  Claim C4, as stated, fails: a response that decodes but has no score and no total
  cannot be validated into the expected structure, yet \<open>grade_exam\<close> returns it as an
  ordinary result, not as a parse failure, and without the raw text.
\<close>

theorem grade_exam_unvalidated_counterexample:
  "fst (grade_exam_multi json_loads (answers incomplete_text) '''' ''Q'' ''A'' ''narrative'' io0) =
     Inr incomplete_value \<and>
   \<not> valid_evaluation incomplete_value \<and>
   incomplete_value \<noteq> parse_failure incomplete_text \<and>
   json_get incomplete_value ''raw'' = None"
  by (simp add: grade_exam_multi_answers decode_incomplete_text valid_evaluation_def
      total_score_def json_get_def incomplete_value_def parse_failure_def)

text \<open>
  Claim C4, amended. For every oracle response text that \<open>json.loads\<close> rejects (such as
  \<open>not json\<close>), the multi-agent \<open>grade_exam\<close> does not raise and reports no score: it
  returns the dict \<open>{"error": "Invalid JSON", "raw": text}\<close>, which carries the raw oracle
  text and is not a valid evaluation.
\<close>

theorem grade_exam_multi_undecodable:
  "grade_exam_prompts rubric questions responses exam_type = Inr (system_prompt, user_prompt) \<and>
   fst (call_with_backoff_multi (api (multi_request system_prompt user_prompt)) s) = Inr (Some raw) \<and>
   loads raw = None \<longrightarrow>
     fst (grade_exam_multi loads api rubric questions responses exam_type s) = Inr (parse_failure raw) \<and>
     json_get (parse_failure raw) ''raw'' = Some (JStr raw) \<and>
     total_score (parse_failure raw) = None \<and>
     \<not> valid_evaluation (parse_failure raw)"
proof (intro impI)
  assume h: "grade_exam_prompts rubric questions responses exam_type = Inr (system_prompt, user_prompt) \<and>
   fst (call_with_backoff_multi (api (multi_request system_prompt user_prompt)) s) = Inr (Some raw) \<and>
   loads raw = None"
  then obtain s' where
    "call_with_backoff_multi (api (multi_request system_prompt user_prompt)) s = (Inr (Some raw), s')"
    by (metis prod.collapse)
  with h have "fst (grade_exam_multi loads api rubric questions responses exam_type s) =
      Inr (parse_failure raw)"
    by (simp add: grade_exam_multi_def parse_failure_def)
  then show "fst (grade_exam_multi loads api rubric questions responses exam_type s) = Inr (parse_failure raw) \<and>
     json_get (parse_failure raw) ''raw'' = Some (JStr raw) \<and>
     total_score (parse_failure raw) = None \<and>
     \<not> valid_evaluation (parse_failure raw)"
    by (simp add: parse_failure_def json_get_def total_score_def valid_evaluation_def)
qed

theorem grade_exam_multi_undecodable_witness:
  "fst (grade_exam_multi json_loads (answers not_json_text) '''' ''Q'' ''A'' ''narrative'' io0) =
     Inr (JDict [(''error'', JStr ''Invalid JSON''), (''raw'', JStr ''not json'')])"
proof -
  let ?U = "''Questions:'' @ [NL] @ ''Q'' @ [NL, NL] @ ''Student Responses:'' @ [NL] @ ''A''"
  have p: "grade_exam_prompts '''' ''Q'' ''A'' ''narrative'' = Inr (NARRATIVE_PROMPT_NO_RUBRIC, ?U)"
    by (simp add: narrative_prompts py_strip_def)
  have m: "fst (call_with_backoff_multi
             (answers not_json_text (multi_request NARRATIVE_PROMPT_NO_RUBRIC ?U)) io0) =
           Inr (Some not_json_text)"
    by (simp add: first_call_succeeds_multi answers_def)
  from grade_exam_multi_undecodable
    [where rubric = "''''" and questions = "''Q''" and responses = "''A''"
       and exam_type = "''narrative''" and system_prompt = NARRATIVE_PROMPT_NO_RUBRIC
       and user_prompt = ?U and api = "answers not_json_text" and s = io0
       and raw = not_json_text and loads = json_loads] p m decode_not_json_text
  have "fst (grade_exam_multi json_loads (answers not_json_text) '''' ''Q'' ''A'' ''narrative'' io0) =
      Inr (parse_failure not_json_text)"
    by blast
  then show ?thesis by (simp add: parse_failure_def not_json_text_def)
qed

lemma brace_free_simps:
  "brace_free []"
  "brace_free (c # cs) = (c \<noteq> CHR ''{'' \<and> c \<noteq> CHR ''}'' \<and> brace_free cs)"
  "brace_free (xs @ ys) = (brace_free xs \<and> brace_free ys)"
  by (auto simp: brace_free_def)

lemma brace_free_join_nl: "list_all brace_free ls \<Longrightarrow> brace_free (join_nl ls)"
  by (induction ls rule: join_nl.induct) (auto simp: brace_free_simps NL_def)

lemma join_nl_append:
  "xs \<noteq> [] \<Longrightarrow> ys \<noteq> [] \<Longrightarrow> join_nl (xs @ ys) = join_nl xs @ NL # join_nl ys"
proof (induction xs rule: join_nl.induct)
  case 1
  then show ?case by simp
next
  case (2 l)
  then show ?case by (cases ys) simp_all
next
  case (3 l v va)
  then show ?case by simp
qed

lemma format_scan_literal:
  "brace_free l \<Longrightarrow>
   format_scan kw Literal out (l @ rest) = format_scan kw Literal (rev l @ out) rest"
proof (induction l arbitrary: out)
  case Nil
  then show ?case by simp
next
  case (Cons c l)
  then have c: "c \<noteq> CHR ''{''" "c \<noteq> CHR ''}''" and l: "brace_free l"
    by (simp_all add: brace_free_simps)
  show ?case
  proof (cases "l @ rest")
    case Nil
    with c show ?thesis by simp
  next
    case (Cons d ds)
    have "format_scan kw Literal out ((c # l) @ rest) = format_scan kw Literal (c # out) (l @ rest)"
      using c Cons by simp
    also have "\<dots> = format_scan kw Literal (rev l @ c # out) rest"
      using Cons.IH [OF l] by simp
    finally show ?thesis by simp
  qed
qed

lemma technical_instructions_brace_free: "brace_free (join_nl technical_instructions @ [NL])"
proof -
  have "list_all brace_free technical_instructions"
    unfolding technical_instructions_def by (simp add: brace_free_simps)
  then show ?thesis
    by (simp add: brace_free_simps brace_free_join_nl NL_def)
qed

lemma technical_output_format_raises:
  \<open>format_scan [(''rubric_markdown'', v)] Literal out (join_nl technical_output_format) =
     Inl (KeyError (NL # ''  "question_1"''))\<close>
  unfolding technical_output_format_def by (simp add: NL_def lookup_field_def)

text \<open>
  The output format in \<open>TECHNICAL_PROMPT_TEMPLATE\<close> is written with single braces, so
  \<open>str.format\<close> reads the JSON example as a replacement field named
  \<open>\n  "question_1"\<close> and raises \<open>KeyError\<close>, whatever the rubric.
\<close>

lemma technical_template_format_raises:
  \<open>py_format TECHNICAL_PROMPT_TEMPLATE [(''rubric_markdown'', v)] =
     Inl (KeyError (NL # ''  "question_1"''))\<close>
proof -
  have ne: "technical_instructions \<noteq> []" "technical_output_format \<noteq> []"
    by (simp_all add: technical_instructions_def technical_output_format_def)
  have split: "TECHNICAL_PROMPT_TEMPLATE =
      (join_nl technical_instructions @ [NL]) @ join_nl technical_output_format"
    unfolding TECHNICAL_PROMPT_TEMPLATE_def using join_nl_append [OF ne] by simp
  show ?thesis
    unfolding py_format_def split format_scan_literal [OF technical_instructions_brace_free]
    by (rule technical_output_format_raises)
qed

lemma grade_exam_multi_technical_raises:
  \<open>grade_exam_multi loads api rubric questions responses ''technical'' s =
     (Inl (KeyError (NL # ''  "question_1"'')), s)\<close>
  by (simp add: grade_exam_multi_def grade_exam_prompts_def technical_template_format_raises)






section \<open>Properties of the transcript cache\<close>





lemma pitch_cache_file: "cache_file ''/app'' ''/in/pitch.mp3'' = ''/app/cache/pitch.mp3.txt''"
  by (simp add: cache_file_def RUBRIC_CACHE_DIR_def path_join_def basename_def starts_def)

lemma transcribe_pitch_world:
  "transcribe hello_whisper ''/app'' ''/in/pitch.mp3'' pitch_world =
     (Inr ''hello world'',
      pitch_world\<lparr>whisper_calls := 1,
        files := (files pitch_world)(''/app/cache/pitch.mp3.txt'' \<mapsto> ''hello world'')\<rparr>)"
  by (simp add: transcribe_def Let_def pitch_cache_file pitch_world_def hello_whisper_def)






section \<open>Properties of the audio metrics\<close>

lemma metrics_multi_silent:
  "samples a = 0 \<Longrightarrow>
   metrics_multi a t = Inr \<lparr>duration = 0, wpm = 0, silence_ratio = 0, transcript = t\<rparr>"
  by (simp add: metrics_multi_def and_then_def py_truediv_def sr_def)

lemma metrics_multi_sounding:
  "0 < samples a \<Longrightarrow>
   metrics_multi a t =
     Inr \<lparr>duration = real (samples a) / sr,
          wpm = real (word_count t) / (real (samples a) / sr / 60),
          silence_ratio =
            (real (samples a) / sr - real_of_int (voiced_samples a) / sr) / (real (samples a) / sr),
          transcript = t\<rparr>"
  by (simp add: metrics_multi_def and_then_def py_truediv_def sr_def)

lemma silence_ratio_bounds:
  fixes d v :: real
  assumes "0 < d" and "0 \<le> v" and "v \<le> d"
  shows "0 \<le> (d - v) / d \<and> (d - v) / d \<le> 1"
  using assms by (simp add: divide_le_eq)

text \<open>
  The unguarded arithmetic of \<open>exam_grader_agents.py\<close> raises on an empty signal.
\<close>

lemma metrics_agents_silent_raises:
  "samples a = 0 \<Longrightarrow> metrics_agents a t = Inl ZeroDivisionError"
  by (simp add: metrics_agents_def and_then_def py_truediv_def sr_def)

text \<open>
  Claim C10. Once the audio is loaded and transcribed, the multi-agent \<open>analyze_audio\<close>
  returns and does not raise. For a signal of zero duration (no samples) the result has
  \<open>wpm = 0\<close> and \<open>silence_ratio = 0\<close>. For a positive duration it is exactly
  \<open>wpm = word_count / (duration / 60)\<close> and
  \<open>silence_ratio = (duration - voiced) / duration\<close>, where \<open>duration\<close> is the number of
  samples over the sample rate and \<open>voiced\<close> the length of the non-silent intervals over
  the sample rate; the silence ratio lies between 0 and 1 when the voiced time is
  non-negative and does not exceed the duration.
\<close>

theorem analyze_audio_multi_metrics:
  "load p = Inr a \<and> transcribe whisper cwd p w = (Inr t, w') \<longrightarrow>
     (samples a = 0 \<longrightarrow>
        fst (analyze_audio_multi load whisper cwd p w) =
          Inr \<lparr>duration = 0, wpm = 0, silence_ratio = 0, transcript = t\<rparr>) \<and>
     (0 < samples a \<longrightarrow>
        fst (analyze_audio_multi load whisper cwd p w) =
          Inr \<lparr>duration = real (samples a) / sr,
               wpm = real (word_count t) / (real (samples a) / sr / 60),
               silence_ratio =
                 (real (samples a) / sr - real_of_int (voiced_samples a) / sr) /
                 (real (samples a) / sr),
               transcript = t\<rparr> \<and>
        (0 \<le> real_of_int (voiced_samples a) / sr \<and>
         real_of_int (voiced_samples a) / sr \<le> real (samples a) / sr \<longrightarrow>
           0 \<le> (real (samples a) / sr - real_of_int (voiced_samples a) / sr) / (real (samples a) / sr) \<and>
           (real (samples a) / sr - real_of_int (voiced_samples a) / sr) / (real (samples a) / sr) \<le> 1)) \<and>
     (\<exists>m. fst (analyze_audio_multi load whisper cwd p w) = Inr m)"
proof (intro impI)
  assume h: "load p = Inr a \<and> transcribe whisper cwd p w = (Inr t, w')"
  then have run: "fst (analyze_audio_multi load whisper cwd p w) = metrics_multi a t"
    by (simp add: analyze_audio_multi_def)
  have silent: "samples a = 0 \<longrightarrow>
        fst (analyze_audio_multi load whisper cwd p w) =
          Inr \<lparr>duration = 0, wpm = 0, silence_ratio = 0, transcript = t\<rparr>"
    using run metrics_multi_silent by simp
  have sounding: "0 < samples a \<longrightarrow>
        fst (analyze_audio_multi load whisper cwd p w) =
          Inr \<lparr>duration = real (samples a) / sr,
               wpm = real (word_count t) / (real (samples a) / sr / 60),
               silence_ratio =
                 (real (samples a) / sr - real_of_int (voiced_samples a) / sr) /
                 (real (samples a) / sr),
               transcript = t\<rparr>"
    using run metrics_multi_sounding by simp
  have bounds: "0 < samples a \<longrightarrow>
        (0 \<le> real_of_int (voiced_samples a) / sr \<and>
         real_of_int (voiced_samples a) / sr \<le> real (samples a) / sr \<longrightarrow>
           0 \<le> (real (samples a) / sr - real_of_int (voiced_samples a) / sr) / (real (samples a) / sr) \<and>
           (real (samples a) / sr - real_of_int (voiced_samples a) / sr) / (real (samples a) / sr) \<le> 1)"
  proof (intro impI)
    assume "0 < samples a"
      and "0 \<le> real_of_int (voiced_samples a) / sr \<and>
         real_of_int (voiced_samples a) / sr \<le> real (samples a) / sr"
    moreover from \<open>0 < samples a\<close> have "0 < real (samples a) / sr"
      by (simp add: sr_def)
    ultimately show "0 \<le> (real (samples a) / sr - real_of_int (voiced_samples a) / sr) / (real (samples a) / sr) \<and>
           (real (samples a) / sr - real_of_int (voiced_samples a) / sr) / (real (samples a) / sr) \<le> 1"
      by (intro silence_ratio_bounds) simp_all
  qed
  have returns: "\<exists>m. fst (analyze_audio_multi load whisper cwd p w) = Inr m"
    using silent sounding by (cases "samples a = 0") auto
  from silent sounding bounds returns
  show "(samples a = 0 \<longrightarrow>
        fst (analyze_audio_multi load whisper cwd p w) =
          Inr \<lparr>duration = 0, wpm = 0, silence_ratio = 0, transcript = t\<rparr>) \<and>
     (0 < samples a \<longrightarrow>
        fst (analyze_audio_multi load whisper cwd p w) =
          Inr \<lparr>duration = real (samples a) / sr,
               wpm = real (word_count t) / (real (samples a) / sr / 60),
               silence_ratio =
                 (real (samples a) / sr - real_of_int (voiced_samples a) / sr) /
                 (real (samples a) / sr),
               transcript = t\<rparr> \<and>
        (0 \<le> real_of_int (voiced_samples a) / sr \<and>
         real_of_int (voiced_samples a) / sr \<le> real (samples a) / sr \<longrightarrow>
           0 \<le> (real (samples a) / sr - real_of_int (voiced_samples a) / sr) / (real (samples a) / sr) \<and>
           (real (samples a) / sr - real_of_int (voiced_samples a) / sr) / (real (samples a) / sr) \<le> 1)) \<and>
     (\<exists>m. fst (analyze_audio_multi load whisper cwd p w) = Inr m)"
    by blast
qed

lemma word_count_hello_world: "word_count ''hello world'' = 2"
  by (simp add: word_count_def py_split_def py_isspace_def)

theorem analyze_audio_multi_metrics_witness:
  "fst (analyze_audio_multi (\<lambda>p. Inr pitch_audio) hello_whisper ''/app'' ''/in/pitch.mp3'' pitch_world) =
     Inr \<lparr>duration = 180, wpm = 2 / 3, silence_ratio = 2 / 25, transcript = ''hello world''\<rparr> \<and>
   fst (analyze_audio_multi (\<lambda>p. Inr empty_audio) hello_whisper ''/app'' ''/in/pitch.mp3'' pitch_world) =
     Inr \<lparr>duration = 0, wpm = 0, silence_ratio = 0, transcript = ''hello world''\<rparr> \<and>
   0 \<le> (real (samples pitch_audio) / sr - real_of_int (voiced_samples pitch_audio) / sr) /
        (real (samples pitch_audio) / sr) \<and>
   (real (samples pitch_audio) / sr - real_of_int (voiced_samples pitch_audio) / sr) /
        (real (samples pitch_audio) / sr) \<le> 1"
proof -
  let ?w1 = "pitch_world\<lparr>whisper_calls := 1,
        files := (files pitch_world)(''/app/cache/pitch.mp3.txt'' \<mapsto> ''hello world'')\<rparr>"
  have pitch: "samples pitch_audio = 2880000" "voiced_samples pitch_audio = 2649600"
    by (simp_all add: pitch_audio_def voiced_samples_def)
  have empty: "samples empty_audio = 0"
    by (simp add: empty_audio_def)
  have voiced: "0 \<le> real_of_int (voiced_samples pitch_audio) / sr \<and>
      real_of_int (voiced_samples pitch_audio) / sr \<le> real (samples pitch_audio) / sr"
    by (simp add: pitch sr_def)
  note sounding = analyze_audio_multi_metrics
    [where load = "\<lambda>p. Inr pitch_audio" and p = "''/in/pitch.mp3''" and a = pitch_audio
       and whisper = hello_whisper and cwd = "''/app''" and w = pitch_world
       and t = "''hello world''" and w' = ?w1]
  note silent = analyze_audio_multi_metrics
    [where load = "\<lambda>p. Inr empty_audio" and p = "''/in/pitch.mp3''" and a = empty_audio
       and whisper = hello_whisper and cwd = "''/app''" and w = pitch_world
       and t = "''hello world''" and w' = ?w1]
  have 1: "fst (analyze_audio_multi (\<lambda>p. Inr pitch_audio) hello_whisper ''/app'' ''/in/pitch.mp3''
              pitch_world) =
      Inr \<lparr>duration = 180, wpm = 2 / 3, silence_ratio = 2 / 25, transcript = ''hello world''\<rparr>"
    using sounding transcribe_pitch_world
    by (simp add: pitch sr_def word_count_hello_world)
  have 2: "fst (analyze_audio_multi (\<lambda>p. Inr empty_audio) hello_whisper ''/app'' ''/in/pitch.mp3''
              pitch_world) =
      Inr \<lparr>duration = 0, wpm = 0, silence_ratio = 0, transcript = ''hello world''\<rparr>"
    using silent transcribe_pitch_world empty by simp
  have 3: "0 \<le> (real (samples pitch_audio) / sr - real_of_int (voiced_samples pitch_audio) / sr) /
        (real (samples pitch_audio) / sr) \<and>
      (real (samples pitch_audio) / sr - real_of_int (voiced_samples pitch_audio) / sr) /
        (real (samples pitch_audio) / sr) \<le> 1"
    using sounding transcribe_pitch_world voiced pitch(1) by simp
  from 1 2 3 show ?thesis by simp
qed

section \<open>Properties of the audio guardrail\<close>




end
